theory Spec2Isabelle
  imports Complex_Main "HOL-Library.Sublist"
begin

section \<open>Python values and built-ins used by the program\<close>

text \<open>
  A Python \<^verbatim>\<open>str\<close> is a sequence of Unicode code points, so a string is a list of
  natural numbers here (not a byte string). \<open>lit\<close> writes an ASCII literal of the source.
\<close>

type_synonym codepoint = nat
type_synonym pystr = "codepoint list"

definition lit :: "string \<Rightarrow> pystr" where
  "lit s = map of_char s"

text \<open>
  The character tables of the interpreter (\<^verbatim>\<open>str.isalnum\<close>, \<^verbatim>\<open>str.isspace\<close>,
  \<^verbatim>\<open>str.lower\<close> on a one-character string) and its string parsers (\<^verbatim>\<open>int(s)\<close>,
  \<^verbatim>\<open>float(s)\<close>) are not part of the repository. They are parameters of the model:
  every general theorem below holds for all tables. \<^verbatim>\<open>ch.lower()\<close> may return more than
  one code point, hence a string.
\<close>

record py_builtins =
  str_isalnum :: "codepoint \<Rightarrow> bool"
  str_isspace :: "codepoint \<Rightarrow> bool"
  str_lower :: "codepoint \<Rightarrow> pystr"
  int_of_str :: "pystr \<Rightarrow> int option"
  float_of_str :: "pystr \<Rightarrow> real option"

text \<open>
  An excerpt of CPython's tables for concrete runs: exact on the ASCII code points
  \<open>0 .. 127\<close> and on U+0130 (LATIN CAPITAL LETTER I WITH DOT ABOVE, a letter whose
  lower case is the two code points U+0069 U+0307) and U+0307 (COMBINING DOT ABOVE, a
  mark: neither alphanumeric nor whitespace). ASCII whitespace in CPython is
  \<open>0x09 .. 0x0D\<close>, \<open>0x1C .. 0x1F\<close> and \<open>0x20\<close>. The parsers of the excerpt read plain
  strings of ASCII digits. The excerpt is used on such inputs only.
\<close>

definition ascii_isalnum :: "codepoint \<Rightarrow> bool" where
  "ascii_isalnum c = (48 \<le> c \<and> c \<le> 57 \<or> 65 \<le> c \<and> c \<le> 90 \<or> 97 \<le> c \<and> c \<le> 122)"

definition ascii_isspace :: "codepoint \<Rightarrow> bool" where
  "ascii_isspace c = (9 \<le> c \<and> c \<le> 13 \<or> 28 \<le> c \<and> c \<le> 32)"

definition excerpt_lower :: "codepoint \<Rightarrow> pystr" where
  "excerpt_lower c =
     (if 65 \<le> c \<and> c \<le> 90 then [c + 32]
      else if c = 304 then [105, 775]
      else [c])"

fun digits_value :: "nat \<Rightarrow> pystr \<Rightarrow> nat option" where
  "digits_value acc [] = Some acc"
| "digits_value acc (c # cs) =
     (if 48 \<le> c \<and> c \<le> 57 then digits_value (10 * acc + (c - 48)) cs else None)"

definition excerpt_digits :: "pystr \<Rightarrow> nat option" where
  "excerpt_digits s = (if s = [] then None else digits_value 0 s)"

definition cpython_excerpt :: py_builtins where
  "cpython_excerpt =
     \<lparr> str_isalnum = (\<lambda>c. ascii_isalnum c \<or> c = 304),
       str_isspace = ascii_isspace,
       str_lower = excerpt_lower,
       int_of_str = (\<lambda>s. map_option int (excerpt_digits s)),
       float_of_str = (\<lambda>s. map_option real (excerpt_digits s)) \<rparr>"

text \<open>\<^verbatim>\<open>needle in hay\<close> on strings: the substring test, as a search from each position.\<close>

fun str_contains :: "pystr \<Rightarrow> pystr \<Rightarrow> bool" where
  "str_contains [] needle = (needle = [])"
| "str_contains (c # hay) needle = (prefix needle (c # hay) \<or> str_contains hay needle)"

text \<open>\<^verbatim>\<open>s.strip()\<close>: leading and trailing whitespace removed.\<close>

definition strip :: "py_builtins \<Rightarrow> pystr \<Rightarrow> pystr" where
  "strip py s = rev (dropWhile (str_isspace py) (rev (dropWhile (str_isspace py) s)))"

section \<open>Text normalizer (best\_program.py)\<close>

text \<open>
  \<^verbatim>\<open>def _normalize(text): return "".join(ch.lower() for ch in text
                                           if ch.isalnum() or ch.isspace())\<close>
  The generator is a loop over the characters; the leading underscore of the source name
  is dropped (\<open>normalize\<close> itself is a constant of HOL).
\<close>

fun normalize_text :: "py_builtins \<Rightarrow> pystr \<Rightarrow> pystr" where
  "normalize_text py [] = []"
| "normalize_text py (ch # text) =
     (if str_isalnum py ch \<or> str_isspace py ch
      then str_lower py ch @ normalize_text py text
      else normalize_text py text)"

text \<open>
  \<^verbatim>\<open>def _is_correct(answer, expected_substring):
      norm_ans = _normalize(answer)
      norm_exp = _normalize(expected_substring)
      return norm_exp in norm_ans\<close>
\<close>

definition is_correct :: "py_builtins \<Rightarrow> pystr \<Rightarrow> pystr \<Rightarrow> bool" where
  "is_correct py answer expected_substring =
     (let norm_ans = normalize_text py answer;
          norm_exp = normalize_text py expected_substring
      in str_contains norm_ans norm_exp)"

text \<open>
  The normalizer as the specification words it: keep the alphanumeric and the whitespace
  characters, in order, lower-case each, and put nothing in place of the others.
\<close>

definition normalize_spec :: "py_builtins \<Rightarrow> pystr \<Rightarrow> pystr" where
  "normalize_spec py text =
     concat (map (str_lower py) (filter (\<lambda>ch. str_isalnum py ch \<or> str_isspace py ch) text))"

section \<open>Dynamic values and exceptions\<close>

text \<open>
  The configuration is a \<^verbatim>\<open>Dict[str, Any]\<close> and a candidate's metrics are whatever
  the candidate returns, so values are dynamically typed. Dictionaries are association
  lists with string keys (the only keys the program looks up). A Python \<^verbatim>\<open>float\<close> is
  modelled by the real number it denotes; NaN and the infinities are outside the model.
\<close>

datatype pyval =
    PNone
  | PBool bool
  | PInt int
  | PFloat real
  | PStr pystr
  | PDict "(pystr \<times> pyval) list"

type_synonym pydict = "(pystr \<times> pyval) list"

text \<open>
  Exceptions are values. \<open>Raised\<close> stands for any exception of code outside the
  repository (the completion provider, a candidate's own code), by its class name.
\<close>

datatype error =
    ImportError pystr
  | AttributeError pystr
  | KeyError pystr
  | TypeError
  | ValueError
  | IndexError
  | OverflowError
  | RuntimeError pystr
  | Raised pystr

text \<open>Truth value of an object, as \<^verbatim>\<open>if x:\<close> tests it.\<close>

fun truthy :: "pyval \<Rightarrow> bool" where
  "truthy PNone = False"
| "truthy (PBool b) = b"
| "truthy (PInt n) = (n \<noteq> 0)"
| "truthy (PFloat r) = (r \<noteq> 0)"
| "truthy (PStr s) = (s \<noteq> [])"
| "truthy (PDict d) = (d \<noteq> [])"

text \<open>\<^verbatim>\<open>int(x)\<close>: a float is truncated towards zero, a string is parsed.\<close>

fun py_int :: "py_builtins \<Rightarrow> pyval \<Rightarrow> error + int" where
  "py_int py (PInt n) = Inr n"
| "py_int py (PBool b) = Inr (if b then 1 else 0)"
| "py_int py (PFloat r) = Inr (if 0 \<le> r then \<lfloor>r\<rfloor> else \<lceil>r\<rceil>)"
| "py_int py (PStr s) = (case int_of_str py s of None \<Rightarrow> Inl ValueError | Some n \<Rightarrow> Inr n)"
| "py_int py PNone = Inl TypeError"
| "py_int py (PDict d) = Inl TypeError"

text \<open>
  \<^verbatim>\<open>float(n)\<close> for an integer: the nearest double, ties to even, or \<^verbatim>\<open>OverflowError\<close>
  (here \<open>None\<close>). An integer below \<open>2^53\<close> is a double. A larger one keeps its 53
  leading bits \<open>q\<close>, rounded by the bits \<open>r\<close> cut off; it overflows when it has more
  than 1024 bits or the rounding carries up to \<open>2^1024\<close>.
\<close>

fun bit_length :: "nat \<Rightarrow> nat" where
  "bit_length n = (if n = 0 then 0 else Suc (bit_length (n div 2)))"

declare bit_length.simps [simp del]

definition double_of_nat :: "nat \<Rightarrow> real option" where
  "double_of_nat n =
     (if n < 2 ^ 53 then Some (real n)
      else if 2 ^ 1024 \<le> n then None
      else
        (let e = bit_length n - 53;
             q = n div 2 ^ e;
             r = n mod 2 ^ e;
             m = (if 2 ^ e < 2 * r \<or> (2 * r = 2 ^ e \<and> odd q) then q + 1 else q)
         in if 2 ^ 1024 \<le> m * 2 ^ e then None else Some (real (m * 2 ^ e))))"

definition double_of_int :: "int \<Rightarrow> real option" where
  "double_of_int n =
     (if 0 \<le> n then double_of_nat (nat n)
      else map_option uminus (double_of_nat (nat (- n))))"

text \<open>\<^verbatim>\<open>float(x)\<close>.\<close>

fun py_float :: "py_builtins \<Rightarrow> pyval \<Rightarrow> error + real" where
  "py_float py (PFloat r) = Inr r"
| "py_float py (PInt n) = (case double_of_int n of None \<Rightarrow> Inl OverflowError | Some r \<Rightarrow> Inr r)"
| "py_float py (PBool b) = Inr (if b then 1 else 0)"
| "py_float py (PStr s) = (case float_of_str py s of None \<Rightarrow> Inl ValueError | Some r \<Rightarrow> Inr r)"
| "py_float py PNone = Inl TypeError"
| "py_float py (PDict d) = Inl TypeError"

text \<open>\<^verbatim>\<open>d.get(key, default)\<close> on a dictionary; on any object (only a dictionary has the
  method); \<^verbatim>\<open>x[key]\<close> with a string key on any object.\<close>

definition dict_get :: "pydict \<Rightarrow> pystr \<Rightarrow> pyval \<Rightarrow> pyval" where
  "dict_get d key dflt = (case map_of d key of None \<Rightarrow> dflt | Some v \<Rightarrow> v)"

fun get_method :: "pyval \<Rightarrow> pystr \<Rightarrow> pyval \<Rightarrow> error + pyval" where
  "get_method (PDict d) key dflt = Inr (dict_get d key dflt)"
| "get_method x key dflt = Inl (AttributeError (lit ''get''))"

fun getitem :: "pyval \<Rightarrow> pystr \<Rightarrow> error + pyval" where
  "getitem (PDict d) key = (case map_of d key of None \<Rightarrow> Inl (KeyError key) | Some v \<Rightarrow> Inr v)"
| "getitem x key = Inl TypeError"

definition str_getitem :: "(pystr \<times> pystr) list \<Rightarrow> pystr \<Rightarrow> error + pystr" where
  "str_getitem d key = (case map_of d key of None \<Rightarrow> Inl (KeyError key) | Some v \<Rightarrow> Inr v)"

text \<open>Decimal digits of a natural number, as an f-string renders it.\<close>

fun decimal :: "nat \<Rightarrow> pystr" where
  "decimal n = (if n < 10 then [48 + n] else decimal (n div 10) @ [48 + n mod 10])"

declare decimal.simps [simp del]

section \<open>Completion stage (best\_program.py)\<close>

text \<open>
  The provider behind \<^verbatim>\<open>_client.chat.completions.create\<close> is outside the repository: a
  parameter that maps a request and the state of the outside world to an exception or
  to the \<^verbatim>\<open>message.content\<close> of each returned choice (which may be \<^verbatim>\<open>None\<close>), and
  a new state of the outside world.
\<close>

record request =
  model :: pystr
  system_content :: pyval
  user_content :: pystr
  max_tokens :: int

type_synonym 'e provider = "request \<Rightarrow> 'e \<Rightarrow> (error + pystr option list) \<times> 'e"

text \<open>
  The state threaded through the program: the requests sent to the provider so far (the
  call count is its length), the lines printed, and the outside world.
\<close>

record 'e world =
  calls :: "request list"
  stdout :: "pystr list"
  env :: 'e

definition print_line :: "pystr \<Rightarrow> 'e world \<Rightarrow> 'e world" where
  "print_line line w = w\<lparr>stdout := stdout w @ [line]\<rparr>"

text \<open>
  The module-level names a function of best\_program.py reads: the interpreter's
  built-ins, \<^verbatim>\<open>_client\<close>, \<^verbatim>\<open>AGENT_CONFIG\<close> (the block an optimizer rewrites) and
  \<^verbatim>\<open>EVAL_SET\<close>.
\<close>

record 'e program =
  builtins :: py_builtins
  client :: "'e provider"
  agent_config :: pydict
  eval_set :: "(pystr \<times> pystr) list list"

text \<open>
  \<^verbatim>\<open>def _call_llm(system_prompt, user_content, max_tokens=128):
      model = "gpt-4o-mini"
      resp = _client.chat.completions.create(model=model, messages=[...],
                                             max_tokens=max_tokens)
      return (resp.choices[0].message.content or "").strip()\<close>
\<close>

definition call_llm ::
  "'e program \<Rightarrow> pyval \<Rightarrow> pystr \<Rightarrow> int \<Rightarrow> 'e world \<Rightarrow> (error + pystr) \<times> 'e world" where
  "call_llm g system_prompt content tokens w =
     (let req = \<lparr> model = lit ''gpt-4o-mini'', system_content = system_prompt,
                  user_content = content, max_tokens = tokens \<rparr>;
          (resp, e') = client g req (env w);
          w' = w\<lparr>calls := calls w @ [req], env := e'\<rparr>
      in case resp of
           Inl err \<Rightarrow> (Inl err, w')
         | Inr choices \<Rightarrow>
             (case choices of
                [] \<Rightarrow> (Inl IndexError, w')
              | c # _ \<Rightarrow>
                  (Inr (strip (builtins g) (case c of None \<Rightarrow> [] | Some s \<Rightarrow> s)), w')))"

section \<open>Pipeline orchestrator (best\_program.py)\<close>

text \<open>
  \<^verbatim>\<open>plan_text = ""
  if config.get("use_planner", False):
      planner_cfg = config["planner"]
      plan_text = _call_llm(planner_cfg["system_prompt"], "Question: " + question,
                            max_tokens=int(planner_cfg.get("max_tokens", 128)))\<close>
\<close>

definition planner_step ::
  "'e program \<Rightarrow> pystr \<Rightarrow> pydict \<Rightarrow> 'e world \<Rightarrow> (error + pystr) \<times> 'e world" where
  "planner_step g question config w =
     (if truthy (dict_get config (lit ''use_planner'') (PBool False)) then
        (case getitem (PDict config) (lit ''planner'') of
           Inl e \<Rightarrow> (Inl e, w)
         | Inr planner_cfg \<Rightarrow>
        (case getitem planner_cfg (lit ''system_prompt'') of
           Inl e \<Rightarrow> (Inl e, w)
         | Inr system_prompt \<Rightarrow>
        (case get_method planner_cfg (lit ''max_tokens'') (PInt 128) of
           Inl e \<Rightarrow> (Inl e, w)
         | Inr tokens \<Rightarrow>
        (case py_int (builtins g) tokens of
           Inl e \<Rightarrow> (Inl e, w)
         | Inr n \<Rightarrow> call_llm g system_prompt (lit ''Question: '' @ question) n w))))
      else (Inr [], w))"

text \<open>
  \<^verbatim>\<open>solver_cfg = config["solver"]
  solver_input = "Question: " + question
  if plan_text:
      solver_input += "\nPlan: " + plan_text
  answer = _call_llm(solver_cfg["system_prompt"], solver_input,
                     max_tokens=int(solver_cfg.get("max_tokens", 64)))
  return answer\<close>
  The line feed is code point 10.
\<close>

definition solver_input :: "pystr \<Rightarrow> pystr \<Rightarrow> pystr" where
  "solver_input question plan_text =
     (lit ''Question: '' @ question) @
     (if plan_text \<noteq> [] then (10 # lit ''Plan: '') @ plan_text else [])"

definition solver_step ::
  "'e program \<Rightarrow> pystr \<Rightarrow> pydict \<Rightarrow> pystr \<Rightarrow> 'e world \<Rightarrow> (error + pystr) \<times> 'e world" where
  "solver_step g question config plan_text w =
     (case getitem (PDict config) (lit ''solver'') of
        Inl e \<Rightarrow> (Inl e, w)
      | Inr solver_cfg \<Rightarrow>
     (case getitem solver_cfg (lit ''system_prompt'') of
        Inl e \<Rightarrow> (Inl e, w)
      | Inr system_prompt \<Rightarrow>
     (case get_method solver_cfg (lit ''max_tokens'') (PInt 64) of
        Inl e \<Rightarrow> (Inl e, w)
      | Inr tokens \<Rightarrow>
     (case py_int (builtins g) tokens of
        Inl e \<Rightarrow> (Inl e, w)
      | Inr n \<Rightarrow> call_llm g system_prompt (solver_input question plan_text) n w))))"

text \<open>
  \<^verbatim>\<open>def run_multi_agent(question, config=None):
      if config is None:
          config = AGENT_CONFIG
      ...\<close>
  the planner block, then the solver block; an exception of the first ends the run.
\<close>

definition run_multi_agent ::
  "'e program \<Rightarrow> pystr \<Rightarrow> pydict option \<Rightarrow> 'e world \<Rightarrow> (error + pystr) \<times> 'e world" where
  "run_multi_agent g question config_arg w =
     (let config = (case config_arg of None \<Rightarrow> agent_config g | Some c \<Rightarrow> c) in
      case planner_step g question config w of
        (Inl e, w1) \<Rightarrow> (Inl e, w1)
      | (Inr plan_text, w1) \<Rightarrow> solver_step g question config plan_text w1)"

section \<open>Benchmark evaluator (best\_program.py)\<close>

text \<open>
  The loop of \<^verbatim>\<open>run_benchmark\<close>, with the counter \<open>correct\<close> as an accumulator:
  \<^verbatim>\<open>for ex in EVAL_SET:
      ans = run_multi_agent(ex["question"])
      if verbose:
          print("Q:", ex["question"]); print("A:", ans); print()
      if _is_correct(ans, ex["expected_substring"]):
          correct += 1\<close>
\<close>

fun benchmark_loop ::
  "'e program \<Rightarrow> (pystr \<times> pystr) list list \<Rightarrow> bool \<Rightarrow> nat \<Rightarrow> 'e world
     \<Rightarrow> (error + nat) \<times> 'e world" where
  "benchmark_loop g [] verbose correct w = (Inr correct, w)"
| "benchmark_loop g (ex # rest) verbose correct w =
     (case str_getitem ex (lit ''question'') of
        Inl e \<Rightarrow> (Inl e, w)
      | Inr question \<Rightarrow>
     (case run_multi_agent g question None w of
        (Inl e, w1) \<Rightarrow> (Inl e, w1)
      | (Inr ans, w1) \<Rightarrow>
     (let w2 = (if verbose
                then print_line [] (print_line (lit ''A: '' @ ans)
                       (print_line (lit ''Q: '' @ question) w1))
                else w1)
      in case str_getitem ex (lit ''expected_substring'') of
           Inl e \<Rightarrow> (Inl e, w2)
         | Inr expected \<Rightarrow>
             benchmark_loop g rest verbose
               (if is_correct (builtins g) ans expected then correct + 1 else correct) w2)))"

text \<open>
  \<^verbatim>\<open>success_rate = correct / len(EVAL_SET) if EVAL_SET else 0.0
  if verbose:
      print(f"Correct answers: {correct}/{len(EVAL_SET)}")
  return {"success_rate": float(success_rate),
          "num_examples": float(len(EVAL_SET))}\<close>
\<close>

definition run_benchmark ::
  "'e program \<Rightarrow> bool \<Rightarrow> 'e world \<Rightarrow> (error + (pystr \<times> real) list) \<times> 'e world" where
  "run_benchmark g verbose w =
     (case benchmark_loop g (eval_set g) verbose 0 w of
        (Inl e, w1) \<Rightarrow> (Inl e, w1)
      | (Inr correct, w1) \<Rightarrow>
          (let success_rate =
                 (if eval_set g \<noteq> [] then real correct / real (length (eval_set g)) else 0);
               w2 = (if verbose
                     then print_line (lit ''Correct answers: '' @ decimal correct @
                            lit ''/'' @ decimal (length (eval_set g))) w1
                     else w1)
           in (Inr [(lit ''success_rate'', success_rate),
                    (lit ''num_examples'', real (length (eval_set g)))], w2)))"

text \<open>The configuration and the evaluation set of best\_program.py.\<close>

definition AGENT_CONFIG :: pydict where
  "AGENT_CONFIG =
     [(lit ''use_planner'', PBool True),
      (lit ''planner'', PDict
         [(lit ''system_prompt'', PStr (lit (
             ''You are a planning assistant. Given a question, write 2-4 short '' @
             ''steps that would help answer the question. Keep steps concise.''))),
          (lit ''max_tokens'', PInt 128)]),
      (lit ''solver'', PDict
         [(lit ''system_prompt'', PStr (lit (
             ''You are an intelligent assistant. Use the plan provided to answer '' @
             ''the question as accurately as possible.''))),
          (lit ''max_tokens'', PInt 32)])]"

definition EVAL_SET :: "(pystr \<times> pystr) list list" where
  "EVAL_SET =
     [[(lit ''question'', lit ''What is the capital of France?''),
       (lit ''expected_substring'', lit ''paris'')],
      [(lit ''question'', lit ''Who wrote the novel Pride and Prejudice?''),
       (lit ''expected_substring'', lit ''jane austen'')],
      [(lit ''question'', lit ''What is the chemical formula for water?''),
       (lit ''expected_substring'', lit ''h2o'')],
      [(lit ''question'', lit ''What is the capital of Italy?''),
       (lit ''expected_substring'', lit ''rome'')],
      [(lit ''question'', lit ''What is the largest ocean on Earth?''),
       (lit ''expected_substring'', lit ''pacific'')],
      [(lit ''question'', lit ''Who painted the Mona Lisa?''),
       (lit ''expected_substring'', lit ''leonardo da vinci'')],
      [(lit ''question'', lit ''What is the boiling point of water?''),
       (lit ''expected_substring'', lit ''100'')]]"

definition best_program :: "py_builtins \<Rightarrow> 'e provider \<Rightarrow> 'e program" where
  "best_program py provider =
     \<lparr> builtins = py, client = provider, agent_config = AGENT_CONFIG, eval_set = EVAL_SET \<rparr>"

section \<open>Candidate loader and optimizer adapter (multi\_agent\_evaluator.py)\<close>

text \<open>
  A loaded module is the list of its attributes; an attribute is a function of no
  argument (called in the candidate's state \<open>'s\<close>, it returns a value or raises) or a
  value that is not callable. What \<^verbatim>\<open>importlib.util.spec_from_file_location\<close> finds at a
  path is a parameter: nothing, or a spec whose loader (if it has one) executes the
  module's body, which raises or yields the module.
\<close>

datatype 's pyobject =
    Function "'s \<Rightarrow> (error + pyval) \<times> 's"
  | Value pyval

type_synonym 's pymodule = "(pystr \<times> 's pyobject) list"

record 's spec =
  loader :: "('s \<Rightarrow> (error + 's pymodule) \<times> 's) option"

text \<open>
  \<^verbatim>\<open>def _load_program(path):
      spec = importlib.util.spec_from_file_location("candidate_program", path)
      if spec is None or spec.loader is None:
          raise ImportError(f"Could not load candidate program from {path}")
      module = importlib.util.module_from_spec(spec)
      spec.loader.exec_module(module)
      return module\<close>
\<close>

definition load_program ::
  "(pystr \<Rightarrow> 's spec option) \<Rightarrow> pystr \<Rightarrow> 's \<Rightarrow> (error + 's pymodule) \<times> 's" where
  "load_program spec_from_file_location path s =
     (case spec_from_file_location path of
        None \<Rightarrow> (Inl (ImportError (lit ''Could not load candidate program from '' @ path)), s)
      | Some spec \<Rightarrow>
          (case loader spec of
             None \<Rightarrow>
               (Inl (ImportError (lit ''Could not load candidate program from '' @ path)), s)
           | Some exec_module \<Rightarrow> exec_module s))"

text \<open>Calling an object with no argument: only a function is callable.\<close>

fun call_object :: "'s pyobject \<Rightarrow> 's \<Rightarrow> (error + pyval) \<times> 's" where
  "call_object (Function f) s = f s"
| "call_object (Value v) s = (Inl TypeError, s)"

text \<open>
  \<^verbatim>\<open>def evaluate(program_path):
      mod = _load_program(program_path)
      if not hasattr(mod, "run_benchmark"):
          raise AttributeError("Candidate program does not define run_benchmark(). "
                               "Make sure multi_agent_program.py has run_benchmark().")
      metrics = mod.run_benchmark()
      success_rate = float(metrics.get("success_rate", 0.0))
      combined_score = success_rate
      return {"score": combined_score, "combined_score": combined_score,
              "success_rate": success_rate}\<close>
\<close>

definition no_run_benchmark :: error where
  "no_run_benchmark = AttributeError (lit (
     ''Candidate program does not define run_benchmark(). '' @
     ''Make sure multi_agent_program.py has run_benchmark().''))"

definition evaluate ::
  "py_builtins \<Rightarrow> (pystr \<Rightarrow> 's spec option) \<Rightarrow> pystr \<Rightarrow> 's
     \<Rightarrow> (error + (pystr \<times> real) list) \<times> 's" where
  "evaluate py spec_from_file_location program_path s =
     (case load_program spec_from_file_location program_path s of
        (Inl e, s1) \<Rightarrow> (Inl e, s1)
      | (Inr candidate, s1) \<Rightarrow>
     (case map_of candidate (lit ''run_benchmark'') of
        None \<Rightarrow> (Inl no_run_benchmark, s1)
      | Some f \<Rightarrow>
     (case call_object f s1 of
        (Inl e, s2) \<Rightarrow> (Inl e, s2)
      | (Inr metrics, s2) \<Rightarrow>
     (case get_method metrics (lit ''success_rate'') (PFloat 0) of
        Inl e \<Rightarrow> (Inl e, s2)
      | Inr v \<Rightarrow>
     (case py_float py v of
        Inl e \<Rightarrow> (Inl e, s2)
      | Inr success_rate \<Rightarrow>
          (let combined_score = success_rate
           in (Inr [(lit ''score'', combined_score),
                    (lit ''combined_score'', combined_score),
                    (lit ''success_rate'', success_rate)], s2)))))))"

text \<open>
  best\_program.py as a candidate. Its body raises when the environment holds no API key
  (\<^verbatim>\<open>if not _api_key: raise RuntimeError(...)\<close>), and otherwise builds the client from
  the key and defines \<^verbatim>\<open>run_benchmark\<close>; the evaluator calls it with the default
  \<^verbatim>\<open>verbose=False\<close>. Only the attribute the evaluator looks up is listed.
\<close>

definition no_api_key :: error where
  "no_api_key = RuntimeError (
     lit ''OPENAI_API_KEY not found.'' @
     (10 # lit ''Create a .env file in this folder with a line like:'') @
     (10 # lit ''  OPENAI_API_KEY=sk-your-real-key-here''))"

definition metrics_object :: "(pystr \<times> real) list \<Rightarrow> pyval" where
  "metrics_object d = PDict (map (\<lambda>(k, v). (k, PFloat v)) d)"

definition best_program_body ::
  "py_builtins \<Rightarrow> (pystr \<Rightarrow> 'e provider) \<Rightarrow> pystr option \<Rightarrow> 'e world
     \<Rightarrow> (error + 'e world pymodule) \<times> 'e world" where
  "best_program_body py OpenAI api_key w =
     (case api_key of
        None \<Rightarrow> (Inl no_api_key, w)
      | Some key \<Rightarrow>
          (if key = [] then (Inl no_api_key, w)
           else (Inr [(lit ''run_benchmark'',
                       Function (\<lambda>w'. case run_benchmark (best_program py (OpenAI key)) False w' of
                                        (Inl e, w'') \<Rightarrow> (Inl e, w'')
                                      | (Inr d, w'') \<Rightarrow> (Inr (metrics_object d), w'')))], w)))"

section \<open>Specification-side notions and test doubles\<close>

text \<open>
  The answers produced along a benchmark run, in the order of the examples: each is the
  orchestrator's answer to the example's question, in the state the examples before it
  left. The list ends where a question is missing or the orchestrator raises.
\<close>

fun produced_answers ::
  "'e program \<Rightarrow> (pystr \<times> pystr) list list \<Rightarrow> bool \<Rightarrow> 'e world \<Rightarrow> pystr list" where
  "produced_answers g [] verbose w = []"
| "produced_answers g (ex # rest) verbose w =
     (case map_of ex (lit ''question'') of
        None \<Rightarrow> []
      | Some question \<Rightarrow>
          (case run_multi_agent g question None w of
             (Inl e, w1) \<Rightarrow> []
           | (Inr ans, w1) \<Rightarrow>
               ans # produced_answers g rest verbose
                 (if verbose
                  then print_line [] (print_line (lit ''A: '' @ ans)
                         (print_line (lit ''Q: '' @ question) w1))
                  else w1)))"

text \<open>
  The specification's \<open>correct_count\<close>: the number of examples whose answer matches the
  example's expected substring.
\<close>

definition correct_count ::
  "py_builtins \<Rightarrow> pystr list \<Rightarrow> (pystr \<times> pystr) list list \<Rightarrow> nat" where
  "correct_count py answers exs =
     length (filter
       (\<lambda>(ans, ex). case map_of ex (lit ''expected_substring'') of
                       None \<Rightarrow> False
                     | Some expected \<Rightarrow> is_correct py ans expected)
       (zip answers exs))"

text \<open>
  Providers for concrete runs: one that answers every request with the same text, and
  one whose connection always fails. Neither has a state of its own.
\<close>

definition constant_provider :: "pystr \<Rightarrow> unit provider" where
  "constant_provider answer req e = (Inr [Some answer], e)"

definition failing_provider :: "unit provider" where
  "failing_provider req e = (Inl (Raised (lit ''APIConnectionError'')), e)"

definition w0 :: "unit world" where
  "w0 = \<lparr> calls = [], stdout = [], env = () \<rparr>"

text \<open>A candidate file whose \<^verbatim>\<open>run_benchmark\<close> returns the given object.\<close>

definition returning :: "pyval \<Rightarrow> pystr \<Rightarrow> unit spec option" where
  "returning metrics path =
     Some \<lparr> loader = Some (\<lambda>s. (Inr [(lit ''run_benchmark'',
                                         Function (\<lambda>s'. (Inr metrics, s')))], s)) \<rparr>"

text \<open>best\_program.py on disk, with the given provider and environment variable.\<close>

definition best_program_file :: "unit provider \<Rightarrow> pystr option \<Rightarrow> pystr \<Rightarrow> unit world spec option" where
  "best_program_file provider api_key path =
     Some \<lparr> loader = Some (best_program_body cpython_excerpt (\<lambda>key. provider) api_key) \<rparr>"

text \<open>
  Normalizing again changes nothing when each retained character lower-cases to
  characters that are themselves retained and are their own lower case.
\<close>

definition lower_stable :: "py_builtins \<Rightarrow> pystr \<Rightarrow> bool" where
  "lower_stable py s =
     list_all (\<lambda>ch. (str_isalnum py ch \<or> str_isspace py ch) \<longrightarrow>
        list_all (\<lambda>c. (str_isalnum py c \<or> str_isspace py c) \<and> str_lower py c = [c])
          (str_lower py ch)) s"

section \<open>Properties of the text normalizer\<close>

lemma normalize_text_append:
  "normalize_text py (xs @ ys) = normalize_text py xs @ normalize_text py ys"
  by (induction xs) simp_all

lemma str_contains_sublist: "str_contains hay needle = sublist needle hay"
  by (induction hay) (simp_all add: sublist_Cons_right)

lemma lit_PARIS_bang: "normalize_text cpython_excerpt (lit ''PARIS!'') = lit ''paris''"
  by (simp add: lit_def cpython_excerpt_def ascii_isalnum_def ascii_isspace_def excerpt_lower_def)

lemma lit_paris: "normalize_text cpython_excerpt (lit ''paris'') = lit ''paris''"
  by (simp add: lit_def cpython_excerpt_def ascii_isalnum_def ascii_isspace_def excerpt_lower_def)

text \<open>
  C6. For every string, \<open>normalize\<close> returns the alphanumeric and whitespace characters
  of the string, each lower-cased, in their original order, every other character removed
  and nothing put in its place; and \<open>normalize("PARIS!") = normalize("paris")\<close>.
\<close>

theorem normalize_text_keeps_lowercased:
  "normalize_text py s = normalize_spec py s \<and>
   normalize_text cpython_excerpt (lit ''PARIS!'') = normalize_text cpython_excerpt (lit ''paris'')"
proof
  show "normalize_text py s = normalize_spec py s"
    by (induction s) (simp_all add: normalize_spec_def)
  show "normalize_text cpython_excerpt (lit ''PARIS!'') = normalize_text cpython_excerpt (lit ''paris'')"
    by (simp only: lit_PARIS_bang lit_paris)
qed

lemma normalize_text_fixed:
  "list_all (\<lambda>c. (str_isalnum py c \<or> str_isspace py c) \<and> str_lower py c = [c]) xs
   \<Longrightarrow> normalize_text py xs = xs"
  by (induction xs) simp_all

lemma ascii_lower_stable: "list_all (\<lambda>c. c < 128) s \<Longrightarrow> lower_stable cpython_excerpt s"
  unfolding lower_stable_def
  by (induction s)
     (auto simp: cpython_excerpt_def ascii_isalnum_def ascii_isspace_def excerpt_lower_def)

text \<open>
  C7 (as the code has it). \<open>normalize (normalize s) = normalize s\<close> for every string
  \<open>s\<close> whose retained characters lower-case to retained characters that lower-casing
  leaves unchanged; every ASCII string is one (\<open>ascii_lower_stable\<close>).
\<close>

theorem normalize_text_idempotent_when_stable:
  assumes "lower_stable py s"
  shows "normalize_text py (normalize_text py s) = normalize_text py s"
  using assms
proof (induction s)
  case Nil
  show ?case by simp
next
  case (Cons ch s)
  from Cons.prems have rest: "lower_stable py s"
    by (simp add: lower_stable_def)
  show ?case
  proof (cases "str_isalnum py ch \<or> str_isspace py ch")
    case True
    with Cons.prems have
      "list_all (\<lambda>c. (str_isalnum py c \<or> str_isspace py c) \<and> str_lower py c = [c])
         (str_lower py ch)"
      by (auto simp add: lower_stable_def)
    then have "normalize_text py (str_lower py ch) = str_lower py ch"
      by (rule normalize_text_fixed)
    with True Cons.IH [OF rest] show ?thesis
      by (simp add: normalize_text_append)
  next
    case False
    with Cons.IH [OF rest] show ?thesis by simp
  qed
qed

theorem normalize_text_idempotent_witness:
  "lower_stable cpython_excerpt (lit ''PARIS!'') \<and>
   normalize_text cpython_excerpt (normalize_text cpython_excerpt (lit ''PARIS!''))
     = normalize_text cpython_excerpt (lit ''PARIS!'')"
proof -
  have h: "lower_stable cpython_excerpt (lit ''PARIS!'')"
    by (rule ascii_lower_stable) (simp add: lit_def)
  from h normalize_text_idempotent_when_stable [OF h] show ?thesis by simp
qed

text \<open>
  The claim C7 as stated fails on the one-character string U+0130: its lower case is
  U+0069 U+0307, and the second pass drops the combining mark U+0307.
\<close>

theorem normalize_text_not_idempotent:
  "normalize_text cpython_excerpt [304] = [105, 775] \<and>
   normalize_text cpython_excerpt (normalize_text cpython_excerpt [304]) = [105] \<and>
   normalize_text cpython_excerpt (normalize_text cpython_excerpt [304])
     \<noteq> normalize_text cpython_excerpt [304]"
  by (simp add: cpython_excerpt_def ascii_isalnum_def ascii_isspace_def excerpt_lower_def)

lemma is_correct_Paris:
  "is_correct cpython_excerpt (lit ''Paris is the capital of France.'') (lit ''paris'')"
  by (simp add: is_correct_def lit_def cpython_excerpt_def ascii_isalnum_def ascii_isspace_def
      excerpt_lower_def)

lemma is_correct_Rome:
  "\<not> is_correct cpython_excerpt (lit ''Rome'') (lit ''paris'')"
  by (simp add: is_correct_def lit_def cpython_excerpt_def ascii_isalnum_def ascii_isspace_def
      excerpt_lower_def)

text \<open>
  C5. \<open>matches answer expected_substring\<close> is true if and only if the normalized expected
  substring occurs as a contiguous substring of the normalized answer; it is true for
  "Paris is the capital of France." against "paris" and false for "Rome" against "paris".
\<close>

theorem is_correct_iff_contiguous_substring:
  "is_correct py answer expected_substring =
     (\<exists>before after.
        normalize_text py answer = before @ normalize_text py expected_substring @ after) \<and>
   is_correct cpython_excerpt (lit ''Paris is the capital of France.'') (lit ''paris'') \<and>
   \<not> is_correct cpython_excerpt (lit ''Rome'') (lit ''paris'')"
  by (simp only: is_correct_Paris is_correct_Rome)
     (simp add: is_correct_def str_contains_sublist sublist_def)

section \<open>Properties of the benchmark evaluator\<close>

lemmas run_defs = run_benchmark_def best_program_def EVAL_SET_def AGENT_CONFIG_def
  run_multi_agent_def planner_step_def solver_step_def solver_input_def call_llm_def strip_def
  dict_get_def str_getitem_def is_correct_def lit_def cpython_excerpt_def ascii_isalnum_def
  ascii_isspace_def excerpt_lower_def constant_provider_def w0_def print_line_def Let_def

lemma correct_count_Cons:
  "correct_count py (ans # answers) (ex # exs) =
     (case map_of ex (lit ''expected_substring'') of
        None \<Rightarrow> 0
      | Some expected \<Rightarrow> if is_correct py ans expected then 1 else 0)
     + correct_count py answers exs"
  by (simp add: correct_count_def split: option.splits)

lemma correct_count_le: "correct_count py answers exs \<le> length exs"
proof -
  have "correct_count py answers exs \<le> length (zip answers exs)"
    unfolding correct_count_def by (rule length_filter_le)
  then show ?thesis by simp
qed

lemma benchmark_loop_counts:
  "benchmark_loop g exs verbose c w = (Inr c', w') \<Longrightarrow>
     length (produced_answers g exs verbose w) = length exs \<and>
     c' = c + correct_count (builtins g) (produced_answers g exs verbose w) exs"
proof (induction exs arbitrary: c w)
  case Nil
  then show ?case by (simp add: correct_count_def)
next
  case (Cons ex exs)
  from Cons.prems obtain question where q: "map_of ex (lit ''question'') = Some question"
    by (auto simp add: str_getitem_def split: option.splits)
  from Cons.prems q obtain ans w1 where
    r: "run_multi_agent g question None w = (Inr ans, w1)"
    by (auto simp add: str_getitem_def split: prod.splits sum.splits)
  let ?w2 = "if verbose
             then print_line [] (print_line (lit ''A: '' @ ans)
                    (print_line (lit ''Q: '' @ question) w1))
             else w1"
  from Cons.prems q r obtain expected where
    x: "map_of ex (lit ''expected_substring'') = Some expected"
    by (auto simp add: str_getitem_def Let_def split: option.splits)
  from Cons.prems q r x have rest:
    "benchmark_loop g exs verbose
       (if is_correct (builtins g) ans expected then c + 1 else c) ?w2 = (Inr c', w')"
    by (simp add: str_getitem_def Let_def)
  from Cons.IH [OF rest] q r x show ?case
    by (simp add: correct_count_Cons)
qed

lemma best_program_constant_Paris:
  "fst (run_benchmark (best_program cpython_excerpt (constant_provider (lit '' Paris. ''))) False w0)
     = Inr [(lit ''success_rate'', 1 / 7), (lit ''num_examples'', 7)]"
  by (simp add: run_defs)

lemma best_program_constant_Paris_or_Rome:
  "fst (run_benchmark (best_program cpython_excerpt (constant_provider (lit ''Paris or Rome.'')))
          False w0)
     = Inr [(lit ''success_rate'', 2 / 7), (lit ''num_examples'', 7)]"
  by (simp add: run_defs)

text \<open>
  C2. Every result returned by \<open>run_benchmark\<close> holds \<open>success_rate\<close>, which is the
  number of examples whose produced answer matches the expected substring, divided by the
  number of examples if there is one and \<open>0.0\<close> if there is none, a number between 0
  and 1, and \<open>num_examples\<close>, the length of the evaluation set, which is 7 for the set
  of best\_program.py.
\<close>

theorem run_benchmark_result:
  assumes "fst (run_benchmark g verbose w) = Inr result"
  shows "\<exists>answers correct success_rate.
           answers = produced_answers g (eval_set g) verbose w \<and>
           length answers = length (eval_set g) \<and>
           correct = correct_count (builtins g) answers (eval_set g) \<and>
           correct \<le> length (eval_set g) \<and>
           success_rate =
             (if 0 < length (eval_set g) then real correct / real (length (eval_set g)) else 0) \<and>
           0 \<le> success_rate \<and> success_rate \<le> 1 \<and>
           result = [(lit ''success_rate'', success_rate),
                     (lit ''num_examples'', real (length (eval_set g)))] \<and>
           eval_set (best_program py provider) = EVAL_SET \<and> length EVAL_SET = 7"
proof -
  obtain r w1 where loop: "benchmark_loop g (eval_set g) verbose 0 w = (r, w1)"
    by fastforce
  with assms obtain c where r: "r = Inr c"
    by (cases r) (simp_all add: run_benchmark_def)
  let ?answers = "produced_answers g (eval_set g) verbose w"
  let ?correct = "correct_count (builtins g) ?answers (eval_set g)"
  from loop r have len: "length ?answers = length (eval_set g)" and c: "c = ?correct"
    using benchmark_loop_counts [of g "eval_set g" verbose 0 w c w1] by simp_all
  have le: "?correct \<le> length (eval_set g)"
    by (rule correct_count_le)
  define sr where
    "sr = (if 0 < length (eval_set g) then real ?correct / real (length (eval_set g)) else 0)"
  from le have range: "0 \<le> sr" "sr \<le> 1"
    by (simp_all add: sr_def)
  from assms loop r c have res:
    "result = [(lit ''success_rate'', sr), (lit ''num_examples'', real (length (eval_set g)))]"
    by (auto simp add: run_benchmark_def sr_def Let_def)
  have ref: "eval_set (best_program py provider) = EVAL_SET" "length EVAL_SET = 7"
    by (simp_all add: best_program_def EVAL_SET_def)
  from len le range res ref sr_def show ?thesis
    by blast
qed

theorem run_benchmark_result_witness:
  "fst (run_benchmark (best_program cpython_excerpt (constant_provider (lit ''Paris or Rome.'')))
          False w0)
     = Inr [(lit ''success_rate'', 2 / 7), (lit ''num_examples'', 7)] \<and>
   correct_count cpython_excerpt
     (produced_answers (best_program cpython_excerpt (constant_provider (lit ''Paris or Rome.'')))
        EVAL_SET False w0) EVAL_SET = 2"
proof -
  let ?g = "best_program cpython_excerpt (constant_provider (lit ''Paris or Rome.''))"
  have g: "eval_set ?g = EVAL_SET" "builtins ?g = cpython_excerpt"
    by (simp_all add: best_program_def)
  have len: "length EVAL_SET = 7"
    by (simp add: EVAL_SET_def)
  from run_benchmark_result [OF best_program_constant_Paris_or_Rome]
  obtain correct success_rate where
    "correct = correct_count (builtins ?g) (produced_answers ?g (eval_set ?g) False w0) (eval_set ?g)"
    "success_rate =
       (if 0 < length (eval_set ?g) then real correct / real (length (eval_set ?g)) else 0)"
    "[(lit ''success_rate'', 2 / 7), (lit ''num_examples'', 7)] =
       [(lit ''success_rate'', success_rate), (lit ''num_examples'', real (length (eval_set ?g)))]"
    by blast
  with g len have
    "correct_count cpython_excerpt (produced_answers ?g EVAL_SET False w0) EVAL_SET = 2"
    by simp
  with best_program_constant_Paris_or_Rome show ?thesis by blast
qed

section \<open>Properties of the optimizer adapter\<close>

lemma evaluate_after_call:
  assumes "load_program sffl path s = (Inr candidate, s1)"
    and "map_of candidate (lit ''run_benchmark'') = Some (Function f)"
    and "f s1 = (Inr (PDict metrics), s2)"
  shows "evaluate py sffl path s =
           (case py_float py (dict_get metrics (lit ''success_rate'') (PFloat 0)) of
              Inl e \<Rightarrow> (Inl e, s2)
            | Inr r \<Rightarrow> (Inr [(lit ''score'', r), (lit ''combined_score'', r),
                               (lit ''success_rate'', r)], s2))"
  using assms by (simp add: evaluate_def Let_def split: sum.splits)

lemma double_of_int_small: "\<bar>n\<bar> < 2 ^ 53 \<Longrightarrow> double_of_int n = Some (of_int n)"
proof (cases "0 \<le> n")
  case True
  assume "\<bar>n\<bar> < 2 ^ 53"
  with True have "nat n < 2 ^ 53"
    by (simp add: nat_less_iff)
  with True show ?thesis
    by (simp add: double_of_int_def double_of_nat_def)
next
  case False
  assume "\<bar>n\<bar> < 2 ^ 53"
  with False have "nat (- n) < 2 ^ 53"
    by (simp add: nat_less_iff)
  with False show ?thesis
    by (simp add: double_of_int_def double_of_nat_def)
qed

lemma bit_length_numeral:
  "bit_length 0 = 0"
  "bit_length (Suc 0) = 1"
  "bit_length (numeral Num.One) = 1"
  "bit_length (numeral (Num.Bit0 k)) = Suc (bit_length (numeral k))"
  "bit_length (numeral (Num.Bit1 k)) = Suc (bit_length (numeral k))"
  by (simp_all add: bit_length.simps [of 0] bit_length.simps [of "Suc 0"]
      bit_length.simps [of "numeral _"] bit_length.simps [of 1])

lemma load_returning:
  "load_program (returning metrics) path s =
     (Inr [(lit ''run_benchmark'', Function (\<lambda>s'. (Inr metrics, s')))], s)"
  by (simp add: load_program_def returning_def)

text \<open>
  C1 (as the code has it). When the candidate loads, exposes \<open>run_benchmark\<close>, and that
  returns a dictionary whose \<open>success_rate\<close> is a value that \<open>float\<close> converts,
  \<open>evaluate\<close> returns a report whose \<open>score\<close>, \<open>combined_score\<close> and
  \<open>success_rate\<close> are all the converted value. \<open>float\<close> converts every float and
  every integer of magnitude below \<open>2^53\<close> to itself, and a boolean to 0 or 1.
\<close>

theorem evaluate_three_equal_scores:
  assumes "load_program sffl path s = (Inr candidate, s1)"
    and "map_of candidate (lit ''run_benchmark'') = Some (Function f)"
    and "f s1 = (Inr (PDict metrics), s2)"
    and "map_of metrics (lit ''success_rate'') = Some v"
    and "py_float py v = Inr r"
  shows "evaluate py sffl path s =
           (Inr [(lit ''score'', r), (lit ''combined_score'', r), (lit ''success_rate'', r)], s2) \<and>
         py_float py (PFloat x) = Inr x \<and>
         py_float py (PBool b) = Inr (if b then 1 else 0) \<and>
         (\<bar>n\<bar> < 2 ^ 53 \<longrightarrow> py_float py (PInt n) = Inr (of_int n))"
  using assms(4) assms(5)
  by (simp add: evaluate_after_call [OF assms(1-3)] dict_get_def double_of_int_small)

theorem evaluate_three_equal_scores_witness:
  "evaluate cpython_excerpt
     (returning (PDict [(lit ''success_rate'', PFloat (3 / 7)), (lit ''num_examples'', PFloat 7)]))
     (lit ''candidate.py'') () =
   (Inr [(lit ''score'', 3 / 7), (lit ''combined_score'', 3 / 7), (lit ''success_rate'', 3 / 7)], ()) \<and>
   evaluate cpython_excerpt (returning (PDict [(lit ''success_rate'', PInt 1)]))
     (lit ''candidate.py'') () =
   (Inr [(lit ''score'', 1), (lit ''combined_score'', 1), (lit ''success_rate'', 1)], ())"
proof -
  let ?m1 = "[(lit ''success_rate'', PFloat (3 / 7)), (lit ''num_examples'', PFloat 7)]"
  let ?m2 = "[(lit ''success_rate'', PInt 1)]"
  let ?f1 = "\<lambda>s'::unit. (Inr (PDict ?m1) :: error + pyval, s')"
  let ?f2 = "\<lambda>s'::unit. (Inr (PDict ?m2) :: error + pyval, s')"
  have l1: "load_program (returning (PDict ?m1)) (lit ''candidate.py'') () =
              (Inr [(lit ''run_benchmark'', Function ?f1)], ())"
    by (rule load_returning)
  have l2: "load_program (returning (PDict ?m2)) (lit ''candidate.py'') () =
              (Inr [(lit ''run_benchmark'', Function ?f2)], ())"
    by (rule load_returning)
  have a1: "map_of [(lit ''run_benchmark'', Function ?f1)] (lit ''run_benchmark'') =
              Some (Function ?f1)"
    by simp
  have a2: "map_of [(lit ''run_benchmark'', Function ?f2)] (lit ''run_benchmark'') =
              Some (Function ?f2)"
    by simp
  have c1: "?f1 () = (Inr (PDict ?m1), ())" by simp
  have c2: "?f2 () = (Inr (PDict ?m2), ())" by simp
  have k1: "map_of ?m1 (lit ''success_rate'') = Some (PFloat (3 / 7))" by simp
  have k2: "map_of ?m2 (lit ''success_rate'') = Some (PInt 1)" by simp
  have small: "\<bar>1::int\<bar> < 2 ^ 53" by simp
  have v1: "py_float cpython_excerpt (PFloat (3 / 7)) = Inr (3 / 7)" by simp
  have "py_float cpython_excerpt (PInt 1) = Inr (of_int 1)"
    using evaluate_three_equal_scores [OF l1 a1 c1 k1 v1, of _ _ 1] small by blast
  then have v2: "py_float cpython_excerpt (PInt 1) = Inr 1" by simp
  have r1: "evaluate cpython_excerpt (returning (PDict ?m1)) (lit ''candidate.py'') () =
    (Inr [(lit ''score'', 3 / 7), (lit ''combined_score'', 3 / 7), (lit ''success_rate'', 3 / 7)], ())"
    using evaluate_three_equal_scores [OF l1 a1 c1 k1 v1] by (rule conjunct1)
  have r2: "evaluate cpython_excerpt (returning (PDict ?m2)) (lit ''candidate.py'') () =
    (Inr [(lit ''score'', 1), (lit ''combined_score'', 1), (lit ''success_rate'', 1)], ())"
    using evaluate_three_equal_scores [OF l2 a2 c2 k2 v2] by (rule conjunct1)
  from r1 r2 show ?thesis by (rule conjI)
qed

text \<open>
  The claim C1 as stated fails for a numeric \<open>success_rate\<close> that is an integer beyond
  the double range: \<open>float(10 ** 400)\<close> raises \<open>OverflowError\<close>, and so does
  \<open>evaluate\<close>. An integer above \<open>2^53\<close> is rounded: for \<open>2 ** 53 + 1\<close> the
  three fields are \<open>2.0 ** 53\<close>.
\<close>

theorem evaluate_huge_int_raises:
  "evaluate cpython_excerpt (returning (PDict [(lit ''success_rate'', PInt (10 ^ 400))]))
     (lit ''candidate.py'') () = (Inl OverflowError, ()) \<and>
   evaluate cpython_excerpt (returning (PDict [(lit ''success_rate'', PInt (2 ^ 53 + 1))]))
     (lit ''candidate.py'') () =
     (Inr [(lit ''score'', 2 ^ 53), (lit ''combined_score'', 2 ^ 53),
           (lit ''success_rate'', 2 ^ 53)], ())"
proof
  have "double_of_int (10 ^ 400) = None"
    by (simp add: double_of_int_def double_of_nat_def)
  then show "evaluate cpython_excerpt (returning (PDict [(lit ''success_rate'', PInt (10 ^ 400))]))
     (lit ''candidate.py'') () = (Inl OverflowError, ())"
    by (simp add: evaluate_def load_program_def returning_def dict_get_def)
  have "double_of_int (2 ^ 53 + 1) = Some (2 ^ 53)"
    by (simp add: double_of_int_def double_of_nat_def bit_length_numeral Let_def)
  then show "evaluate cpython_excerpt
     (returning (PDict [(lit ''success_rate'', PInt (2 ^ 53 + 1))])) (lit ''candidate.py'') () =
     (Inr [(lit ''score'', 2 ^ 53), (lit ''combined_score'', 2 ^ 53),
           (lit ''success_rate'', 2 ^ 53)], ())"
    by (simp add: evaluate_def load_program_def returning_def dict_get_def Let_def)
qed

text \<open>
  C3 (as the code has it). \<open>evaluate\<close> fails with an \<open>ImportError\<close> when nothing is
  found at the location or what is found has no loader; it fails with the exception of
  the candidate's body, whatever that is, when executing the body raises; and it fails
  with the \<open>AttributeError\<close> of the evaluator, which is no \<open>ImportError\<close>, when the
  loaded module has no \<open>run_benchmark\<close>. None of these returns a report.
\<close>

theorem evaluate_load_and_contract_errors:
  "(sffl path = None \<longrightarrow>
      evaluate py sffl path s =
        (Inl (ImportError (lit ''Could not load candidate program from '' @ path)), s)) \<and>
   (sffl path = Some sp \<and> loader sp = None \<longrightarrow>
      evaluate py sffl path s =
        (Inl (ImportError (lit ''Could not load candidate program from '' @ path)), s)) \<and>
   (sffl path = Some sp \<and> loader sp = Some exec_module \<and> exec_module s = (Inl e, s1) \<longrightarrow>
      evaluate py sffl path s = (Inl e, s1)) \<and>
   (load_program sffl path s = (Inr candidate, s1) \<and>
    map_of candidate (lit ''run_benchmark'') = None \<longrightarrow>
      evaluate py sffl path s = (Inl no_run_benchmark, s1)) \<and>
   (\<forall>msg. no_run_benchmark \<noteq> ImportError msg)"
  by (simp add: evaluate_def load_program_def no_run_benchmark_def)

theorem evaluate_load_and_contract_errors_witness:
  "evaluate cpython_excerpt (\<lambda>p. None) (lit ''notes.txt'') w0 =
     (Inl (ImportError (lit ''Could not load candidate program from notes.txt'')), w0) \<and>
   evaluate cpython_excerpt (\<lambda>p. Some \<lparr>loader = None\<rparr>) (lit ''candidate'') w0 =
     (Inl (ImportError (lit ''Could not load candidate program from candidate'')), w0) \<and>
   evaluate cpython_excerpt
     (\<lambda>p. Some \<lparr>loader = Some (\<lambda>s. (Inl (Raised (lit ''FileNotFoundError'')), s))\<rparr>)
     (lit ''gone.py'') w0 = (Inl (Raised (lit ''FileNotFoundError'')), w0) \<and>
   evaluate cpython_excerpt (best_program_file failing_provider None) (lit ''best_program.py'') w0 =
     (Inl no_api_key, w0) \<and>
   evaluate cpython_excerpt (\<lambda>p. Some \<lparr>loader = Some (\<lambda>s. (Inr [], s))\<rparr>) (lit ''empty.py'') w0 =
     (Inl no_run_benchmark, w0)"
proof -
  have a: "evaluate cpython_excerpt (\<lambda>p. None) (lit ''notes.txt'') w0 =
     (Inl (ImportError (lit ''Could not load candidate program from '' @ lit ''notes.txt'')), w0)"
    using evaluate_load_and_contract_errors
      [where sffl = "\<lambda>p. None" and path = "lit ''notes.txt''" and py = cpython_excerpt and s = w0]
    by simp
  have b: "evaluate cpython_excerpt (\<lambda>p. Some \<lparr>loader = None\<rparr>) (lit ''candidate'') w0 =
     (Inl (ImportError (lit ''Could not load candidate program from '' @ lit ''candidate'')), w0)"
    using evaluate_load_and_contract_errors
      [where sffl = "\<lambda>p. Some \<lparr>loader = None\<rparr>" and path = "lit ''candidate''"
         and py = cpython_excerpt and s = w0 and sp = "\<lparr>loader = None\<rparr>"]
    by simp
  have c: "evaluate cpython_excerpt
             (\<lambda>p. Some \<lparr>loader = Some (\<lambda>s. (Inl (Raised (lit ''FileNotFoundError'')), s))\<rparr>)
             (lit ''gone.py'') w0 = (Inl (Raised (lit ''FileNotFoundError'')), w0)"
    using evaluate_load_and_contract_errors
      [where sffl = "\<lambda>p. Some \<lparr>loader = Some (\<lambda>s. (Inl (Raised (lit ''FileNotFoundError'')), s))\<rparr>"
         and path = "lit ''gone.py''" and py = cpython_excerpt and s = w0
         and sp = "\<lparr>loader = Some (\<lambda>s. (Inl (Raised (lit ''FileNotFoundError'')), s))\<rparr>"
         and exec_module = "\<lambda>s. (Inl (Raised (lit ''FileNotFoundError'')), s)"
         and e = "Raised (lit ''FileNotFoundError'')" and ?s1.0 = w0]
    by simp
  have c': "evaluate cpython_excerpt (best_program_file failing_provider None)
             (lit ''best_program.py'') w0 = (Inl no_api_key, w0)"
    using evaluate_load_and_contract_errors
      [where sffl = "best_program_file failing_provider None" and path = "lit ''best_program.py''"
         and py = cpython_excerpt and s = w0
         and sp = "\<lparr>loader = Some (best_program_body cpython_excerpt (\<lambda>key. failing_provider) None)\<rparr>"
         and exec_module = "best_program_body cpython_excerpt (\<lambda>key. failing_provider) None"
         and e = no_api_key and ?s1.0 = w0]
    by (simp add: best_program_file_def best_program_body_def)
  have d: "evaluate cpython_excerpt (\<lambda>p. Some \<lparr>loader = Some (\<lambda>s. (Inr [], s))\<rparr>)
             (lit ''empty.py'') w0 = (Inl no_run_benchmark, w0)"
    using evaluate_load_and_contract_errors
      [where sffl = "\<lambda>p. Some \<lparr>loader = Some (\<lambda>s. (Inr [], s))\<rparr>" and path = "lit ''empty.py''"
         and py = cpython_excerpt and s = w0 and candidate = "[]" and ?s1.0 = w0]
    by (simp add: load_program_def)
  have path1: "lit ''Could not load candidate program from '' @ lit ''notes.txt'' =
                 lit ''Could not load candidate program from notes.txt''"
    by (simp add: lit_def)
  have path2: "lit ''Could not load candidate program from '' @ lit ''candidate'' =
                 lit ''Could not load candidate program from candidate''"
    by (simp add: lit_def)
  from a b c c' d show ?thesis
    by (simp only: path1 path2 simp_thms)
qed

text \<open>
  The claim C3 as stated fails where it calls the contract error distinct from the error
  of a candidate that cannot be instantiated: a candidate whose body raises the very
  \<open>AttributeError\<close> of the evaluator and a candidate without \<open>run_benchmark\<close> end
  \<open>evaluate\<close> in the same exception.
\<close>

theorem evaluate_contract_error_not_distinct:
  "evaluate cpython_excerpt (\<lambda>p. Some \<lparr>loader = Some (\<lambda>s. (Inl no_run_benchmark, s))\<rparr>)
     (lit ''raises.py'') () = (Inl no_run_benchmark, ()) \<and>
   evaluate cpython_excerpt (\<lambda>p. Some \<lparr>loader = Some (\<lambda>s. (Inr [], s))\<rparr>)
     (lit ''empty.py'') () = (Inl no_run_benchmark, ())"
  by (simp add: evaluate_def load_program_def)

text \<open>
  C4 (as the code has it). When \<open>run_benchmark\<close> returns a dictionary without the key
  \<open>success_rate\<close>, \<open>evaluate\<close> returns a report whose three fields are \<open>0.0\<close>. When
  the key is there with a value that \<open>float\<close> rejects, \<open>evaluate\<close> raises the
  exception of \<open>float\<close> and returns no report.
\<close>

theorem evaluate_absent_or_rejected_success_rate:
  assumes "load_program sffl path s = (Inr candidate, s1)"
    and "map_of candidate (lit ''run_benchmark'') = Some (Function f)"
    and "f s1 = (Inr (PDict metrics), s2)"
  shows "(map_of metrics (lit ''success_rate'') = None \<longrightarrow>
            evaluate py sffl path s =
              (Inr [(lit ''score'', 0), (lit ''combined_score'', 0), (lit ''success_rate'', 0)], s2)) \<and>
         (\<forall>v e. map_of metrics (lit ''success_rate'') = Some v \<and> py_float py v = Inl e \<longrightarrow>
            evaluate py sffl path s = (Inl e, s2))"
  by (simp add: evaluate_after_call [OF assms] dict_get_def)

theorem evaluate_absent_or_rejected_witness:
  "evaluate cpython_excerpt (returning (PDict [(lit ''num_examples'', PFloat 7)]))
     (lit ''candidate.py'') () =
     (Inr [(lit ''score'', 0), (lit ''combined_score'', 0), (lit ''success_rate'', 0)], ()) \<and>
   evaluate cpython_excerpt (returning (PDict [(lit ''success_rate'', PDict [])]))
     (lit ''candidate.py'') () = (Inl TypeError, ())"
proof -
  let ?m1 = "[(lit ''num_examples'', PFloat 7)]"
  let ?m2 = "[(lit ''success_rate'', PDict [])]"
  let ?f1 = "\<lambda>s'::unit. (Inr (PDict ?m1) :: error + pyval, s')"
  let ?f2 = "\<lambda>s'::unit. (Inr (PDict ?m2) :: error + pyval, s')"
  have l1: "load_program (returning (PDict ?m1)) (lit ''candidate.py'') () =
              (Inr [(lit ''run_benchmark'', Function ?f1)], ())"
    by (rule load_returning)
  have l2: "load_program (returning (PDict ?m2)) (lit ''candidate.py'') () =
              (Inr [(lit ''run_benchmark'', Function ?f2)], ())"
    by (rule load_returning)
  have a1: "map_of [(lit ''run_benchmark'', Function ?f1)] (lit ''run_benchmark'') =
              Some (Function ?f1)"
    by simp
  have a2: "map_of [(lit ''run_benchmark'', Function ?f2)] (lit ''run_benchmark'') =
              Some (Function ?f2)"
    by simp
  have c1: "?f1 () = (Inr (PDict ?m1), ())" by simp
  have c2: "?f2 () = (Inr (PDict ?m2), ())" by simp
  have absent: "map_of ?m1 (lit ''success_rate'') = None"
    by (simp add: lit_def)
  have rejected: "map_of ?m2 (lit ''success_rate'') = Some (PDict []) \<and>
                  py_float cpython_excerpt (PDict []) = Inl TypeError"
    by simp
  from absent evaluate_absent_or_rejected_success_rate [OF l1 a1 c1, of cpython_excerpt]
  have r1: "evaluate cpython_excerpt (returning (PDict ?m1)) (lit ''candidate.py'') () =
              (Inr [(lit ''score'', 0), (lit ''combined_score'', 0), (lit ''success_rate'', 0)], ())"
    by blast
  from rejected evaluate_absent_or_rejected_success_rate [OF l2 a2 c2, of cpython_excerpt]
  have r2: "evaluate cpython_excerpt (returning (PDict ?m2)) (lit ''candidate.py'') () =
              (Inl TypeError, ())"
    by blast
  from r1 r2 show ?thesis by (rule conjI)
qed

text \<open>
  The claim C4 as stated fails: a \<open>success_rate\<close> of \<open>None\<close>, or a string that is no
  number, makes \<open>evaluate\<close> raise instead of returning zeros.
\<close>

theorem evaluate_non_numeric_raises:
  "evaluate cpython_excerpt (returning (PDict [(lit ''success_rate'', PNone)]))
     (lit ''candidate.py'') () = (Inl TypeError, ()) \<and>
   evaluate cpython_excerpt (returning (PDict [(lit ''success_rate'', PStr (lit ''high''))]))
     (lit ''candidate.py'') () = (Inl ValueError, ())"
  by (simp add: evaluate_def load_program_def returning_def dict_get_def lit_def
      cpython_excerpt_def excerpt_digits_def)

section \<open>Properties of the pipeline orchestrator\<close>

lemma call_llm_calls:
  "calls (snd (call_llm g system_prompt content tokens w)) =
     calls w @ [\<lparr> model = lit ''gpt-4o-mini'', system_content = system_prompt,
                  user_content = content, max_tokens = tokens \<rparr>]"
  by (simp add: call_llm_def Let_def split: prod.splits sum.splits list.splits)

lemma planner_step_off:
  "\<not> truthy (dict_get config (lit ''use_planner'') (PBool False))
   \<Longrightarrow> planner_step g question config w = (Inr [], w)"
  by (simp add: planner_step_def)

lemma planner_step_resolved:
  assumes "truthy (dict_get config (lit ''use_planner'') (PBool False))"
    and "map_of config (lit ''planner'') = Some (PDict planner_cfg)"
    and "map_of planner_cfg (lit ''system_prompt'') = Some prompt"
    and "case map_of planner_cfg (lit ''max_tokens'') of
           None \<Rightarrow> n = 128 | Some v \<Rightarrow> py_int (builtins g) v = Inr n"
  shows "planner_step g question config w =
           call_llm g prompt (lit ''Question: '' @ question) n w"
  using assms by (simp add: planner_step_def dict_get_def split: option.splits)

lemma solver_step_resolved:
  assumes "map_of config (lit ''solver'') = Some (PDict solver_cfg)"
    and "map_of solver_cfg (lit ''system_prompt'') = Some prompt"
    and "case map_of solver_cfg (lit ''max_tokens'') of
           None \<Rightarrow> n = 64 | Some v \<Rightarrow> py_int (builtins g) v = Inr n"
  shows "solver_step g question config plan_text w =
           call_llm g prompt (solver_input question plan_text) n w"
  using assms by (simp add: solver_step_def dict_get_def split: option.splits)

lemma solver_step_calls:
  "length (calls (snd (solver_step g question config plan_text w))) \<le> length (calls w) + 1"
  by (simp add: solver_step_def call_llm_calls split: sum.splits)

lemma solver_step_same_solver:
  "map_of config' (lit ''solver'') = map_of config (lit ''solver'')
   \<Longrightarrow> solver_step g question config' plan_text w = solver_step g question config plan_text w"
  by (simp add: solver_step_def)

text \<open>
  C8. For a well-formed configuration, \<open>run\<close> sends the solver the input
  \<open>"Question: " + question\<close>, followed by \<open>"\nPlan: " + plan\<close> exactly when the plan is
  not empty, and its result is the result of that one solver call, made with the solver's
  system prompt and the solver's \<open>max_tokens\<close>. (When the planner call raises, the
  exception is the result and the solver is not called.)
\<close>

theorem run_multi_agent_solver_call:
  assumes "map_of config (lit ''use_planner'') = Some (PBool use_planner)"
    and "map_of config (lit ''planner'') = Some (PDict planner_cfg)"
    and "map_of planner_cfg (lit ''system_prompt'') = Some (PStr planner_prompt)"
    and "map_of planner_cfg (lit ''max_tokens'') = Some (PInt planner_tokens)"
    and "map_of config (lit ''solver'') = Some (PDict solver_cfg)"
    and "map_of solver_cfg (lit ''system_prompt'') = Some (PStr solver_prompt)"
    and "map_of solver_cfg (lit ''max_tokens'') = Some (PInt solver_tokens)"
  shows "run_multi_agent g question (Some config) w =
           (if use_planner then
              (case call_llm g (PStr planner_prompt) (lit ''Question: '' @ question)
                      planner_tokens w of
                 (Inl e, w1) \<Rightarrow> (Inl e, w1)
               | (Inr plan, w1) \<Rightarrow>
                   call_llm g (PStr solver_prompt)
                     (lit ''Question: '' @ question @
                        (if plan = [] then [] else 10 # lit ''Plan: '' @ plan))
                     solver_tokens w1)
            else call_llm g (PStr solver_prompt) (lit ''Question: '' @ question) solver_tokens w)"
proof -
  have solver: "solver_step g question config plan w' =
      call_llm g (PStr solver_prompt)
        (lit ''Question: '' @ question @ (if plan = [] then [] else 10 # lit ''Plan: '' @ plan))
        solver_tokens w'" for plan w'
    using solver_step_resolved [OF assms(5) assms(6), of solver_tokens g question plan w'] assms(7)
    by (simp add: solver_input_def)
  show ?thesis
  proof (cases use_planner)
    case True
    with assms(1) have on: "truthy (dict_get config (lit ''use_planner'') (PBool False))"
      by (simp add: dict_get_def)
    have "planner_step g question config w =
            call_llm g (PStr planner_prompt) (lit ''Question: '' @ question) planner_tokens w"
      using planner_step_resolved [OF on assms(2) assms(3), of planner_tokens g question w] assms(4)
      by simp
    with True show ?thesis
      by (simp add: run_multi_agent_def solver split: prod.splits sum.splits)
  next
    case False
    with assms(1) have "\<not> truthy (dict_get config (lit ''use_planner'') (PBool False))"
      by (simp add: dict_get_def)
    with False show ?thesis
      by (simp add: run_multi_agent_def planner_step_off solver)
  qed
qed

lemmas call_defs = call_llm_def best_program_def constant_provider_def strip_def
  cpython_excerpt_def ascii_isspace_def w0_def solver_input_def Let_def

theorem run_multi_agent_solver_call_witness:
  "fst (run_multi_agent (best_program cpython_excerpt (constant_provider (lit '' Paris. '')))
          (lit ''What is the capital of France?'') (Some AGENT_CONFIG) w0) = Inr (lit ''Paris.'') \<and>
   map user_content (calls (snd (run_multi_agent
          (best_program cpython_excerpt (constant_provider (lit '' Paris. '')))
          (lit ''What is the capital of France?'') (Some AGENT_CONFIG) w0))) =
     [lit ''Question: What is the capital of France?'',
      lit ''Question: What is the capital of France?'' @ [10] @ lit ''Plan: Paris.''] \<and>
   map max_tokens (calls (snd (run_multi_agent
          (best_program cpython_excerpt (constant_provider (lit '' Paris. '')))
          (lit ''What is the capital of France?'') (Some AGENT_CONFIG) w0))) = [128, 32]"
proof -
  let ?g = "best_program cpython_excerpt (constant_provider (lit '' Paris. ''))"
  let ?q = "lit ''What is the capital of France?''"
  let ?pp = "lit (''You are a planning assistant. Given a question, write 2-4 short '' @
                  ''steps that would help answer the question. Keep steps concise.'')"
  let ?sp = "lit (''You are an intelligent assistant. Use the plan provided to answer '' @
                  ''the question as accurately as possible.'')"
  let ?pc = "[(lit ''system_prompt'', PStr ?pp), (lit ''max_tokens'', PInt 128)]"
  let ?sc = "[(lit ''system_prompt'', PStr ?sp), (lit ''max_tokens'', PInt 32)]"
  have h1: "map_of AGENT_CONFIG (lit ''use_planner'') = Some (PBool True)"
    by (simp add: AGENT_CONFIG_def)
  have h2: "map_of AGENT_CONFIG (lit ''planner'') = Some (PDict ?pc)"
    by (simp add: AGENT_CONFIG_def lit_def)
  have h3: "map_of ?pc (lit ''system_prompt'') = Some (PStr ?pp)"
    by simp
  have h4: "map_of ?pc (lit ''max_tokens'') = Some (PInt 128)"
    by (simp add: lit_def)
  have h5: "map_of AGENT_CONFIG (lit ''solver'') = Some (PDict ?sc)"
    by (simp add: AGENT_CONFIG_def lit_def)
  have h6: "map_of ?sc (lit ''system_prompt'') = Some (PStr ?sp)"
    by simp
  have h7: "map_of ?sc (lit ''max_tokens'') = Some (PInt 32)"
    by (simp add: lit_def)
  note eq = run_multi_agent_solver_call [OF h1 h2 h3 h4 h5 h6 h7, of ?g ?q w0]
  show ?thesis
    unfolding eq by (simp add: call_defs lit_def)
qed

text \<open>
  C9. When \<open>use_planner\<close> is false (or missing), the planner block calls nothing: a run
  makes at most one completion call, and for a configuration whose solver entry is
  complete exactly one, the solver's, with input \<open>"Question: " + question\<close>; and a run
  with any other configuration that has the planner off and the same solver entry gives
  the same result.
\<close>

theorem run_multi_agent_planner_off:
  assumes off: "\<not> truthy (dict_get config (lit ''use_planner'') (PBool False))"
  shows "planner_step g question config w = (Inr [], w) \<and>
         length (calls (snd (run_multi_agent g question (Some config) w)))
           \<le> length (calls w) + 1 \<and>
         (\<forall>solver_cfg prompt n.
            map_of config (lit ''solver'') = Some (PDict solver_cfg) \<and>
            map_of solver_cfg (lit ''system_prompt'') = Some prompt \<and>
            (case map_of solver_cfg (lit ''max_tokens'') of
               None \<Rightarrow> n = 64 | Some v \<Rightarrow> py_int (builtins g) v = Inr n) \<longrightarrow>
            run_multi_agent g question (Some config) w =
              call_llm g prompt (lit ''Question: '' @ question) n w \<and>
            calls (snd (run_multi_agent g question (Some config) w)) =
              calls w @ [\<lparr> model = lit ''gpt-4o-mini'', system_content = prompt,
                           user_content = lit ''Question: '' @ question, max_tokens = n \<rparr>]) \<and>
         (\<forall>config'.
            \<not> truthy (dict_get config' (lit ''use_planner'') (PBool False)) \<and>
            map_of config' (lit ''solver'') = map_of config (lit ''solver'') \<longrightarrow>
            run_multi_agent g question (Some config') w =
              run_multi_agent g question (Some config) w)"
proof -
  have run: "run_multi_agent g question (Some c) w = solver_step g question c [] w"
    if "\<not> truthy (dict_get c (lit ''use_planner'') (PBool False))" for c
    using that by (simp add: run_multi_agent_def planner_step_off)
  have a: "planner_step g question config w = (Inr [], w)"
    using off by (rule planner_step_off)
  have b: "length (calls (snd (run_multi_agent g question (Some config) w)))
             \<le> length (calls w) + 1"
    by (simp only: run [OF off] solver_step_calls)
  have c: "run_multi_agent g question (Some config) w =
             call_llm g prompt (lit ''Question: '' @ question) n w \<and>
           calls (snd (run_multi_agent g question (Some config) w)) =
             calls w @ [\<lparr> model = lit ''gpt-4o-mini'', system_content = prompt,
                          user_content = lit ''Question: '' @ question, max_tokens = n \<rparr>]"
    if "map_of config (lit ''solver'') = Some (PDict solver_cfg)"
      and "map_of solver_cfg (lit ''system_prompt'') = Some prompt"
      and "case map_of solver_cfg (lit ''max_tokens'') of
             None \<Rightarrow> n = 64 | Some v \<Rightarrow> py_int (builtins g) v = Inr n"
    for solver_cfg prompt n
    using solver_step_resolved [OF that, of question "[]" w]
    by (simp add: run [OF off] solver_input_def call_llm_calls)
  have d: "run_multi_agent g question (Some config') w =
             run_multi_agent g question (Some config) w"
    if "\<not> truthy (dict_get config' (lit ''use_planner'') (PBool False))"
      and "map_of config' (lit ''solver'') = map_of config (lit ''solver'')"
    for config'
    using solver_step_same_solver [OF that(2), of g question "[]" w]
    by (simp only: run [OF off] run [OF that(1)])
  from a b c d show ?thesis by blast
qed

theorem run_multi_agent_planner_off_witness:
  "planner_step (best_program cpython_excerpt (constant_provider (lit ''Rome'')))
     (lit ''What is the capital of Italy?'')
     [(lit ''use_planner'', PBool False),
      (lit ''planner'', PDict [(lit ''system_prompt'', PStr (lit ''Plan in steps.''))]),
      (lit ''solver'', PDict [(lit ''system_prompt'', PStr (lit ''Answer briefly.'')),
                               (lit ''max_tokens'', PInt 32)])] w0 = (Inr [], w0) \<and>
   calls (snd (run_multi_agent (best_program cpython_excerpt (constant_provider (lit ''Rome'')))
     (lit ''What is the capital of Italy?'')
     (Some [(lit ''use_planner'', PBool False),
            (lit ''planner'', PDict [(lit ''system_prompt'', PStr (lit ''Plan in steps.''))]),
            (lit ''solver'', PDict [(lit ''system_prompt'', PStr (lit ''Answer briefly.'')),
                                     (lit ''max_tokens'', PInt 32)])]) w0)) =
     [\<lparr> model = lit ''gpt-4o-mini'', system_content = PStr (lit ''Answer briefly.''),
        user_content = lit ''Question: '' @ lit ''What is the capital of Italy?'',
        max_tokens = 32 \<rparr>] \<and>
   run_multi_agent (best_program cpython_excerpt (constant_provider (lit ''Rome'')))
     (lit ''What is the capital of Italy?'')
     (Some [(lit ''solver'', PDict [(lit ''system_prompt'', PStr (lit ''Answer briefly.'')),
                                     (lit ''max_tokens'', PInt 32)]),
            (lit ''planner'', PNone)]) w0 =
   run_multi_agent (best_program cpython_excerpt (constant_provider (lit ''Rome'')))
     (lit ''What is the capital of Italy?'')
     (Some [(lit ''use_planner'', PBool False),
            (lit ''planner'', PDict [(lit ''system_prompt'', PStr (lit ''Plan in steps.''))]),
            (lit ''solver'', PDict [(lit ''system_prompt'', PStr (lit ''Answer briefly.'')),
                                     (lit ''max_tokens'', PInt 32)])]) w0"
proof -
  let ?g = "best_program cpython_excerpt (constant_provider (lit ''Rome''))"
  let ?q = "lit ''What is the capital of Italy?''"
  let ?sc = "[(lit ''system_prompt'', PStr (lit ''Answer briefly.'')), (lit ''max_tokens'', PInt 32)]"
  let ?c1 = "[(lit ''use_planner'', PBool False),
              (lit ''planner'', PDict [(lit ''system_prompt'', PStr (lit ''Plan in steps.''))]),
              (lit ''solver'', PDict ?sc)]"
  let ?c2 = "[(lit ''solver'', PDict ?sc), (lit ''planner'', PNone)]"
  have off1: "\<not> truthy (dict_get ?c1 (lit ''use_planner'') (PBool False))"
    by (simp add: dict_get_def)
  have off2: "\<not> truthy (dict_get ?c2 (lit ''use_planner'') (PBool False))"
    by (simp add: dict_get_def lit_def)
  have same: "map_of ?c2 (lit ''solver'') = map_of ?c1 (lit ''solver'')"
    by (simp add: lit_def)
  have s1: "map_of ?c1 (lit ''solver'') = Some (PDict ?sc)"
    by (simp add: lit_def)
  have s2: "map_of ?sc (lit ''system_prompt'') = Some (PStr (lit ''Answer briefly.''))"
    by simp
  have s3: "case map_of ?sc (lit ''max_tokens'') of
              None \<Rightarrow> (32::int) = 64 | Some v \<Rightarrow> py_int (builtins ?g) v = Inr 32"
    by (simp add: lit_def)
  note t = run_multi_agent_planner_off [OF off1, of ?g ?q w0]
  from t have a: "planner_step ?g ?q ?c1 w0 = (Inr [], w0)"
    by (rule conjunct1)
  from t s1 s2 s3 have
    "calls (snd (run_multi_agent ?g ?q (Some ?c1) w0)) =
       calls w0 @ [\<lparr> model = lit ''gpt-4o-mini'', system_content = PStr (lit ''Answer briefly.''),
                     user_content = lit ''Question: '' @ ?q, max_tokens = 32 \<rparr>]"
    by blast
  then have b:
    "calls (snd (run_multi_agent ?g ?q (Some ?c1) w0)) =
       [\<lparr> model = lit ''gpt-4o-mini'', system_content = PStr (lit ''Answer briefly.''),
          user_content = lit ''Question: '' @ ?q, max_tokens = 32 \<rparr>]"
    by (simp add: w0_def)
  from t off2 same have c:
    "run_multi_agent ?g ?q (Some ?c2) w0 = run_multi_agent ?g ?q (Some ?c1) w0"
    by blast
  from a b c show ?thesis by (intro conjI)
qed

text \<open>
  C10. A planner or solver section without the key \<open>max_tokens\<close> does not make the run
  fail: the planner call is made with 128 tokens and the solver call with 64; a value
  that is there is passed through \<open>int\<close>, which leaves an integer unchanged, truncates a
  float towards zero and maps a boolean to 0 or 1.
\<close>

theorem run_multi_agent_max_tokens:
  assumes "map_of config (lit ''planner'') = Some (PDict planner_cfg)"
    and "map_of planner_cfg (lit ''system_prompt'') = Some planner_prompt"
    and "case map_of planner_cfg (lit ''max_tokens'') of
           None \<Rightarrow> planner_tokens = 128
         | Some v \<Rightarrow> py_int (builtins g) v = Inr planner_tokens"
    and "map_of config (lit ''solver'') = Some (PDict solver_cfg)"
    and "map_of solver_cfg (lit ''system_prompt'') = Some solver_prompt"
    and "case map_of solver_cfg (lit ''max_tokens'') of
           None \<Rightarrow> solver_tokens = 64
         | Some v \<Rightarrow> py_int (builtins g) v = Inr solver_tokens"
  shows "run_multi_agent g question (Some config) w =
           (if truthy (dict_get config (lit ''use_planner'') (PBool False)) then
              (case call_llm g planner_prompt (lit ''Question: '' @ question) planner_tokens w of
                 (Inl e, w1) \<Rightarrow> (Inl e, w1)
               | (Inr plan, w1) \<Rightarrow>
                   call_llm g solver_prompt (solver_input question plan) solver_tokens w1)
            else call_llm g solver_prompt (solver_input question []) solver_tokens w) \<and>
         py_int (builtins g) (PInt i) = Inr i \<and>
         py_int (builtins g) (PFloat r) = Inr (if 0 \<le> r then \<lfloor>r\<rfloor> else \<lceil>r\<rceil>) \<and>
         py_int (builtins g) (PBool b) = Inr (if b then 1 else 0)"
proof (cases "truthy (dict_get config (lit ''use_planner'') (PBool False))")
  case True
  show ?thesis
    by (simp add: run_multi_agent_def True
        planner_step_resolved [OF True assms(1) assms(2) assms(3)]
        solver_step_resolved [OF assms(4) assms(5) assms(6)]
        split: prod.splits sum.splits)
next
  case False
  show ?thesis
    by (simp add: run_multi_agent_def False planner_step_off [OF False]
        solver_step_resolved [OF assms(4) assms(5) assms(6)])
qed

theorem run_multi_agent_max_tokens_witness:
  "map max_tokens (calls (snd (run_multi_agent
      (best_program cpython_excerpt (constant_provider (lit ''Rome'')))
      (lit ''What is the capital of Italy?'')
      (Some [(lit ''use_planner'', PBool True),
             (lit ''planner'', PDict [(lit ''system_prompt'', PStr (lit ''Plan in steps.''))]),
             (lit ''solver'', PDict [(lit ''system_prompt'', PStr (lit ''Answer briefly.''))])])
      w0))) = [128, 64] \<and>
   map max_tokens (calls (snd (run_multi_agent
      (best_program cpython_excerpt (constant_provider (lit ''Rome'')))
      (lit ''What is the capital of Italy?'')
      (Some [(lit ''use_planner'', PBool True),
             (lit ''planner'', PDict [(lit ''system_prompt'', PStr (lit ''Plan in steps.'')),
                                      (lit ''max_tokens'', PFloat (97 / 2))]),
             (lit ''solver'', PDict [(lit ''system_prompt'', PStr (lit ''Answer briefly.''))])])
      w0))) = [48, 64]"
proof -
  let ?g = "best_program cpython_excerpt (constant_provider (lit ''Rome''))"
  let ?q = "lit ''What is the capital of Italy?''"
  let ?pc = "[(lit ''system_prompt'', PStr (lit ''Plan in steps.''))]"
  let ?pc' = "[(lit ''system_prompt'', PStr (lit ''Plan in steps.'')),
               (lit ''max_tokens'', PFloat (97 / 2))]"
  let ?sc = "[(lit ''system_prompt'', PStr (lit ''Answer briefly.''))]"
  let ?c = "[(lit ''use_planner'', PBool True), (lit ''planner'', PDict ?pc),
             (lit ''solver'', PDict ?sc)]"
  let ?c' = "[(lit ''use_planner'', PBool True), (lit ''planner'', PDict ?pc'),
              (lit ''solver'', PDict ?sc)]"
  have on: "truthy (dict_get ?c (lit ''use_planner'') (PBool False))"
           "truthy (dict_get ?c' (lit ''use_planner'') (PBool False))"
    by (simp_all add: dict_get_def)
  have p1: "map_of ?c (lit ''planner'') = Some (PDict ?pc)"
    and p1': "map_of ?c' (lit ''planner'') = Some (PDict ?pc')"
    and p2: "map_of ?pc (lit ''system_prompt'') = Some (PStr (lit ''Plan in steps.''))"
    and p2': "map_of ?pc' (lit ''system_prompt'') = Some (PStr (lit ''Plan in steps.''))"
    and p3: "case map_of ?pc (lit ''max_tokens'') of
               None \<Rightarrow> (128::int) = 128 | Some v \<Rightarrow> py_int (builtins ?g) v = Inr 128"
    and p3': "case map_of ?pc' (lit ''max_tokens'') of
               None \<Rightarrow> (48::int) = 128 | Some v \<Rightarrow> py_int (builtins ?g) v = Inr 48"
    and s1: "map_of ?c (lit ''solver'') = Some (PDict ?sc)"
    and s1': "map_of ?c' (lit ''solver'') = Some (PDict ?sc)"
    and s2: "map_of ?sc (lit ''system_prompt'') = Some (PStr (lit ''Answer briefly.''))"
    and s3: "case map_of ?sc (lit ''max_tokens'') of
               None \<Rightarrow> (64::int) = 64 | Some v \<Rightarrow> py_int (builtins ?g) v = Inr 64"
    by (simp_all add: lit_def)
  note eq = run_multi_agent_max_tokens [OF p1 p2 p3 s1 s2 s3, of ?q w0, THEN conjunct1]
  note eq' = run_multi_agent_max_tokens [OF p1' p2' p3' s1' s2 s3, of ?q w0, THEN conjunct1]
  have a: "map max_tokens (calls (snd (run_multi_agent ?g ?q (Some ?c) w0))) = [128, 64]"
    unfolding eq by (simp add: on call_defs)
  have b: "map max_tokens (calls (snd (run_multi_agent ?g ?q (Some ?c') w0))) = [48, 64]"
    unfolding eq' by (simp add: on call_defs)
  from a b show ?thesis by (rule conjI)
qed

section \<open>Runs that return\<close>

text \<open>
  The benchmark returns a result whenever every request gets at least one choice back,
  the configuration resolves and every example has its two keys.
\<close>

lemma call_llm_returns:
  assumes "\<And>req e. \<exists>c cs e'. client g req e = (Inr (c # cs), e')"
  shows "\<exists>answer w'. call_llm g system_prompt content tokens w = (Inr answer, w')"
proof -
  let ?req = "\<lparr> model = lit ''gpt-4o-mini'', system_content = system_prompt,
                 user_content = content, max_tokens = tokens \<rparr>"
  from assms obtain c cs e' where "client g ?req (env w) = (Inr (c # cs), e')"
    by blast
  then show ?thesis
    by (simp add: call_llm_def)
qed

lemma run_multi_agent_returns:
  assumes resp: "\<And>req e. \<exists>c cs e'. client g req e = (Inr (c # cs), e')"
    and "map_of config (lit ''planner'') = Some (PDict planner_cfg)"
    and "map_of planner_cfg (lit ''system_prompt'') = Some planner_prompt"
    and "case map_of planner_cfg (lit ''max_tokens'') of
           None \<Rightarrow> planner_tokens = 128
         | Some v \<Rightarrow> py_int (builtins g) v = Inr planner_tokens"
    and "map_of config (lit ''solver'') = Some (PDict solver_cfg)"
    and "map_of solver_cfg (lit ''system_prompt'') = Some solver_prompt"
    and "case map_of solver_cfg (lit ''max_tokens'') of
           None \<Rightarrow> solver_tokens = 64
         | Some v \<Rightarrow> py_int (builtins g) v = Inr solver_tokens"
  shows "\<exists>answer w'. run_multi_agent g question (Some config) w = (Inr answer, w')"
proof (cases "truthy (dict_get config (lit ''use_planner'') (PBool False))")
  case True
  from call_llm_returns [of g, OF resp] obtain plan w1 where
    p: "call_llm g planner_prompt (lit ''Question: '' @ question) planner_tokens w = (Inr plan, w1)"
    by blast
  from call_llm_returns [of g, OF resp] obtain answer w2 where
    "call_llm g solver_prompt (solver_input question plan) solver_tokens w1 = (Inr answer, w2)"
    by blast
  with p True show ?thesis
    by (simp add: run_multi_agent_def
        planner_step_resolved [OF True assms(2) assms(3) assms(4)]
        solver_step_resolved [OF assms(5) assms(6) assms(7)])
next
  case False
  from call_llm_returns [of g, OF resp] obtain answer w2 where
    "call_llm g solver_prompt (solver_input question []) solver_tokens w = (Inr answer, w2)"
    by blast
  with False show ?thesis
    by (simp add: run_multi_agent_def planner_step_off [OF False]
        solver_step_resolved [OF assms(5) assms(6) assms(7)])
qed

lemma benchmark_loop_returns:
  assumes run: "\<And>question w. \<exists>answer w'. run_multi_agent g question None w = (Inr answer, w')"
    and keys: "list_all (\<lambda>ex. map_of ex (lit ''question'') \<noteq> None \<and>
                             map_of ex (lit ''expected_substring'') \<noteq> None) exs"
  shows "\<exists>correct w'. benchmark_loop g exs verbose c w = (Inr correct, w')"
  using keys
proof (induction exs arbitrary: c w)
  case Nil
  show ?case by simp
next
  case (Cons ex exs)
  from Cons.prems obtain question expected where
    q: "map_of ex (lit ''question'') = Some question"
    and x: "map_of ex (lit ''expected_substring'') = Some expected"
    and rest: "list_all (\<lambda>ex. map_of ex (lit ''question'') \<noteq> None \<and>
                               map_of ex (lit ''expected_substring'') \<noteq> None) exs"
    by auto
  from run obtain ans w1 where r: "run_multi_agent g question None w = (Inr ans, w1)"
    by blast
  show ?case
    using Cons.IH [OF rest] by (simp add: q x r str_getitem_def Let_def)
qed

lemma run_benchmark_returns:
  assumes "\<And>question w. \<exists>answer w'. run_multi_agent g question None w = (Inr answer, w')"
    and "list_all (\<lambda>ex. map_of ex (lit ''question'') \<noteq> None \<and>
                          map_of ex (lit ''expected_substring'') \<noteq> None) (eval_set g)"
  shows "\<exists>result w'. run_benchmark g verbose w = (Inr result, w')"
proof -
  from benchmark_loop_returns [OF assms, of verbose 0 w] obtain correct w1 where
    "benchmark_loop g (eval_set g) verbose 0 w = (Inr correct, w1)"
    by blast
  then show ?thesis
    by (simp add: run_benchmark_def Let_def)
qed

lemma best_program_returns:
  assumes "\<And>req e. \<exists>c cs e'. provider req e = (Inr (c # cs), e')"
  shows "\<exists>result w'. run_benchmark (best_program py provider) verbose w = (Inr result, w')"
proof (rule run_benchmark_returns)
  let ?g = "best_program py provider"
  have resp: "\<And>req e. \<exists>c cs e'. client ?g req e = (Inr (c # cs), e')"
    using assms by (simp add: best_program_def)
  have cfg: "agent_config ?g = AGENT_CONFIG"
    by (simp add: best_program_def)
  show "\<exists>answer w'. run_multi_agent ?g question None w = (Inr answer, w')" for question w
    using run_multi_agent_returns [of ?g AGENT_CONFIG _ _ 128 _ _ 32 question w, OF resp]
    by (simp add: run_multi_agent_def cfg AGENT_CONFIG_def lit_def)
  show "list_all (\<lambda>ex. map_of ex (lit ''question'') \<noteq> None \<and>
                        map_of ex (lit ''expected_substring'') \<noteq> None) (eval_set ?g)"
    by (simp add: best_program_def EVAL_SET_def lit_def)
qed

text \<open>
  End to end: the evaluator on best\_program.py, with a key in the environment and a
  provider that answers every request with \<open>" Paris. "\<close>, scores one example of
  seven.
\<close>

lemma evaluate_best_program_constant_Paris:
  "fst (evaluate cpython_excerpt
          (best_program_file (constant_provider (lit '' Paris. '')) (Some (lit ''sk-test'')))
          (lit ''best_program.py'') w0) =
     Inr [(lit ''score'', 1 / 7), (lit ''combined_score'', 1 / 7), (lit ''success_rate'', 1 / 7)]"
proof -
  let ?g = "best_program cpython_excerpt (constant_provider (lit '' Paris. ''))"
  obtain w' where run:
    "run_benchmark ?g False w0 =
       (Inr [(lit ''success_rate'', 1 / 7), (lit ''num_examples'', 7)], w')"
    using best_program_constant_Paris by (cases "run_benchmark ?g False w0") simp
  have key: "lit ''sk-test'' \<noteq> []"
    by (simp add: lit_def)
  show ?thesis
    by (simp add: evaluate_def load_program_def best_program_file_def best_program_body_def
        metrics_object_def dict_get_def run key Let_def)
qed

end
